theory Spec2Isabelle
  imports Complex_Main "HOL-Library.Word" "HOL-Library.AList" "HOL-Library.Char_ord"
    "HOL-Library.List_Lexorder"
begin

section \<open>Go values\<close>

text \<open>
  A Go \<open>string\<close> and a \<open>[]byte\<close> are byte sequences: both are \<open>string\<close> here
  (a list of 8-bit characters). \<open>uint64\<close> is \<open>64 word\<close>, \<open>int\<close> is \<open>int\<close>
  restricted to the 64-bit range where the code reads one.

  A value held in an \<open>interface{}\<close>: the six dynamic types that \<open>encoding/json\<close>
  produces when it decodes into an \<open>interface{}\<close> (\<open>nil\<close>, \<open>bool\<close>, \<open>float64\<close>,
  \<open>string\<close>, \<open>[]interface{}\<close>, \<open>map[string]interface{}\<close>), and \<open>DUnsupported\<close> for a
  value of a type that \<open>encoding/json\<close> refuses to encode (a channel, a func), named
  by its type. A finite \<open>float64\<close> is a rational number; \<open>rat\<close> holds every one of
  them (and more). A map is an association list, read with \<open>map_of\<close>.
\<close>

datatype dyn =
    DNil
  | DBool bool
  | DFloat64 rat
  | DString string
  | DSlice "dyn list"
  | DMap "(string \<times> dyn) list"
  | DUnsupported string

section \<open>Error model\<close>

text \<open>
  \<^verbatim>\<open>
  type FieldError struct {
      Field          string                 `json:"field"`
      AdditionalInfo map[string]interface{} `json:"additional_info"`
      Message        string                 `json:"message"`
      Code           string                 `json:"code"`
  }
  type APIError struct {
      Err         error
      ReqBody     string
      ResBody     string
      Description string       `json:"description"`
      Errors      []FieldError `json:"errors"`
      StatusCode  int
  }
  \<close>
  \<open>Err\<close> holds \<open>nil\<close> (\<open>None\<close>) or the error made by \<open>fmt.Errorf\<close>, kept as its
  message. A nil slice and an empty one are both \<open>[]\<close>: the code only ranges over
  \<open>Errors\<close>.
\<close>

record FieldError =
  Field :: string
  AdditionalInfo :: "(string \<times> dyn) list"
  Message :: string
  Code :: string

record APIError =
  Err :: "string option"
  ReqBody :: string
  ResBody :: string
  Description :: string
  Errors :: "FieldError list"
  StatusCode :: int

text \<open>
  The conversion \<open>uint64(f)\<close> of a \<open>float64\<close>: the fraction is discarded; when the
  truncated value is not a \<open>uint64\<close> the Go specification leaves the result to the
  implementation.
\<close>

datatype uint64_conv = Exact "64 word" | ImplementationDependent

definition trunc :: "rat \<Rightarrow> int" where
  "trunc f = (if 0 \<le> f then \<lfloor>f\<rfloor> else \<lceil>f\<rceil>)"

definition uint64_of_float64 :: "rat \<Rightarrow> uint64_conv" where
  "uint64_of_float64 f =
     (if 0 \<le> trunc f \<and> trunc f < 2 ^ 64 then Exact (word_of_int (trunc f))
      else ImplementationDependent)"

datatype panic = TypeAssertionPanic

text \<open>
  \<^verbatim>\<open>
  func (e *APIError) IsDuplicate() (bool, uint64) {
      for _, err := range e.Errors {
          if err.Field == "email" && err.Code == "duplicate_value" {
              userID, ok := err.AdditionalInfo["user_id"]
              if !ok || userID == nil {
                  return false, 0
              }
              return true, uint64(userID.(float64))
          }
      }
      return false, 0
  }
  \<close>
  The unchecked assertion \<open>userID.(float64)\<close> panics on any other dynamic type.
\<close>

definition is_email_duplicate :: "FieldError \<Rightarrow> bool" where
  "is_email_duplicate err \<longleftrightarrow> Field err = ''email'' \<and> Code err = ''duplicate_value''"

fun IsDuplicate_range :: "FieldError list \<Rightarrow> panic + (bool \<times> uint64_conv)" where
  "IsDuplicate_range [] = Inr (False, Exact 0)"
| "IsDuplicate_range (err # rest) =
     (if is_email_duplicate err then
        (case map_of (AdditionalInfo err) ''user_id'' of
           None \<Rightarrow> Inr (False, Exact 0)
         | Some DNil \<Rightarrow> Inr (False, Exact 0)
         | Some (DFloat64 f) \<Rightarrow> Inr (True, uint64_of_float64 f)
         | Some _ \<Rightarrow> Inl TypeAssertionPanic)
      else IsDuplicate_range rest)"

definition IsDuplicate :: "APIError \<Rightarrow> panic + (bool \<times> uint64_conv)" where
  "IsDuplicate e = IsDuplicate_range (Errors e)"

text \<open>\<open>func (e *APIError) Error() string\<close>: a nil \<open>Err\<close> is a nil dereference.\<close>

definition Error :: "APIError \<Rightarrow> string option" where
  "Error e = (case Err e of None \<Rightarrow> None | Some m \<Rightarrow> Some (m @ '' - '' @ ResBody e))"

section \<open>Text helpers\<close>

text \<open>
  \<open>format_int\<close> is the verb \<open>%d\<close> of \<open>fmt\<close> on an integer; \<open>base64\<close> is
  \<open>base64.StdEncoding.EncodeToString\<close> (the standard alphabet, padded with \<open>=\<close>).
\<close>

definition dquote :: char where
  "dquote = CHR 0x22"

definition backslash :: char where
  "backslash = CHR 0x5C"

definition digit :: "nat \<Rightarrow> char" where
  "digit n = ''0123456789'' ! n"

fun decimal :: "nat \<Rightarrow> string" where
  "decimal n = (if n < 10 then [digit n] else decimal (n div 10) @ [digit (n mod 10)])"

definition format_int :: "int \<Rightarrow> string" where
  "format_int i = (if i < 0 then CHR ''-'' # decimal (nat (- i)) else decimal (nat i))"

definition base64_alphabet :: string where
  "base64_alphabet = ''ABCDEFGHIJKLMNOPQRSTUVWXYZabcdefghijklmnopqrstuvwxyz0123456789+/''"

definition sextet :: "nat \<Rightarrow> char" where
  "sextet n = base64_alphabet ! (n mod 64)"

fun base64 :: "string \<Rightarrow> string" where
  "base64 [] = []"
| "base64 [a] =
     (let n = of_char a * 65536
      in [sextet (n div 262144), sextet (n div 4096), CHR ''='', CHR ''=''])"
| "base64 [a, b] =
     (let n = of_char a * 65536 + of_char b * 256
      in [sextet (n div 262144), sextet (n div 4096), sextet (n div 64), CHR ''=''])"
| "base64 (a # b # c # rest) =
     (let n = of_char a * 65536 + of_char b * 256 + of_char c
      in [sextet (n div 262144), sextet (n div 4096), sextet (n div 64), sextet n])
     @ base64 rest"

section \<open>JSON text\<close>

text \<open>
  The part of \<open>encoding/json\<close> that the client calls, by its documented behaviour.
  The scanner is a state machine over the bytes, as in the library: \<open>tokenize\<close>
  splits a text into tokens and rejects what no JSON text contains, \<open>parse_tokens\<close>
  checks the grammar with a stack and builds the value. A number keeps its literal,
  since the target decides how it is read; a string literal is decoded by \<open>unquote\<close>
  (escapes, \<open>\u\<close> with surrogate pairs, unpaired surrogates replaced by U+FFFD).
  Not modelled: the library also replaces ill-formed UTF-8 inside a string literal by
  U+FFFD; \<open>unquote\<close> copies every byte above 0x7F as it is, which is what the
  library does on well-formed UTF-8.
\<close>

datatype token =
    TBeginObject | TEndObject | TBeginArray | TEndArray | TColon | TComma
  | TString string
  | TNumber string
  | TTrue | TFalse | TNull

definition token_text :: "token \<Rightarrow> string" where
  "token_text t = (case t of
      TBeginObject \<Rightarrow> ''{'' | TEndObject \<Rightarrow> ''}''
    | TBeginArray \<Rightarrow> ''['' | TEndArray \<Rightarrow> '']''
    | TColon \<Rightarrow> '':'' | TComma \<Rightarrow> '',''
    | TString s \<Rightarrow> dquote # s @ [dquote]
    | TNumber s \<Rightarrow> s
    | TTrue \<Rightarrow> ''true'' | TFalse \<Rightarrow> ''false'' | TNull \<Rightarrow> ''null'')"

datatype numstate = NNeg | N0 | N1 | NDot | NDot0 | NE | NESign | NE0

datatype lex =
    Between
  | InString string
  | InStringEsc string
  | InStringEscU nat string
  | InNumber numstate string
  | InLiteral string token

definition isSpace :: "char \<Rightarrow> bool" where
  "isSpace c \<longleftrightarrow> c = CHR '' '' \<or> c = CHR 0x09 \<or> c = CHR 0x0D \<or> c = CHR 0x0A"

definition is_digit :: "char \<Rightarrow> bool" where
  "is_digit c \<longleftrightarrow> c \<in> set ''0123456789''"

definition is_hex :: "char \<Rightarrow> bool" where
  "is_hex c \<longleftrightarrow> c \<in> set ''0123456789abcdefABCDEF''"

definition number_step :: "numstate \<Rightarrow> char \<Rightarrow> numstate option" where
  "number_step ns c = (case ns of
      NNeg \<Rightarrow> (if c = CHR ''0'' then Some N0 else if is_digit c then Some N1 else None)
    | N0 \<Rightarrow> (if c = CHR ''.'' then Some NDot
             else if c = CHR ''e'' \<or> c = CHR ''E'' then Some NE else None)
    | N1 \<Rightarrow> (if is_digit c then Some N1
             else if c = CHR ''.'' then Some NDot
             else if c = CHR ''e'' \<or> c = CHR ''E'' then Some NE else None)
    | NDot \<Rightarrow> (if is_digit c then Some NDot0 else None)
    | NDot0 \<Rightarrow> (if is_digit c then Some NDot0
             else if c = CHR ''e'' \<or> c = CHR ''E'' then Some NE else None)
    | NE \<Rightarrow> (if c = CHR ''+'' \<or> c = CHR ''-'' then Some NESign
             else if is_digit c then Some NE0 else None)
    | NESign \<Rightarrow> (if is_digit c then Some NE0 else None)
    | NE0 \<Rightarrow> (if is_digit c then Some NE0 else None))"

definition number_ends :: "numstate \<Rightarrow> bool" where
  "number_ends ns \<longleftrightarrow> ns = N0 \<or> ns = N1 \<or> ns = NDot0 \<or> ns = NE0"

definition between :: "token list \<Rightarrow> char \<Rightarrow> (lex \<times> token list) option" where
  "between acc c =
     (if isSpace c then Some (Between, acc)
      else if c = CHR ''{'' then Some (Between, acc @ [TBeginObject])
      else if c = CHR ''}'' then Some (Between, acc @ [TEndObject])
      else if c = CHR ''['' then Some (Between, acc @ [TBeginArray])
      else if c = CHR '']'' then Some (Between, acc @ [TEndArray])
      else if c = CHR '':'' then Some (Between, acc @ [TColon])
      else if c = CHR '','' then Some (Between, acc @ [TComma])
      else if c = dquote then Some (InString [], acc)
      else if c = CHR ''-'' then Some (InNumber NNeg [c], acc)
      else if c = CHR ''0'' then Some (InNumber N0 [c], acc)
      else if is_digit c then Some (InNumber N1 [c], acc)
      else if c = CHR ''t'' then Some (InLiteral ''rue'' TTrue, acc)
      else if c = CHR ''f'' then Some (InLiteral ''alse'' TFalse, acc)
      else if c = CHR ''n'' then Some (InLiteral ''ull'' TNull, acc)
      else None)"

definition lex_step :: "lex \<Rightarrow> token list \<Rightarrow> char \<Rightarrow> (lex \<times> token list) option" where
  "lex_step st acc c = (case st of
      Between \<Rightarrow> between acc c
    | InString s \<Rightarrow>
        (if c = dquote then Some (Between, acc @ [TString s])
         else if c = backslash then Some (InStringEsc (s @ [c]), acc)
         else if (of_char c :: nat) < 32 then None
         else Some (InString (s @ [c]), acc))
    | InStringEsc s \<Rightarrow>
        (if c = CHR ''u'' then Some (InStringEscU 4 (s @ [c]), acc)
         else if c \<in> set ''bfnrt/'' \<or> c = backslash \<or> c = dquote
           then Some (InString (s @ [c]), acc)
         else None)
    | InStringEscU n s \<Rightarrow>
        (if \<not> is_hex c then None
         else if n \<le> 1 then Some (InString (s @ [c]), acc)
         else Some (InStringEscU (n - 1) (s @ [c]), acc))
    | InNumber ns s \<Rightarrow>
        (case number_step ns c of
           Some ns' \<Rightarrow> Some (InNumber ns' (s @ [c]), acc)
         | None \<Rightarrow> if number_ends ns then between (acc @ [TNumber s]) c else None)
    | InLiteral rest t \<Rightarrow>
        (case rest of
           [] \<Rightarrow> None
         | x # xs \<Rightarrow>
             if c \<noteq> x then None
             else if xs = [] then Some (Between, acc @ [t])
             else Some (InLiteral xs t, acc)))"

fun tokenize_from :: "lex \<Rightarrow> token list \<Rightarrow> string \<Rightarrow> token list option" where
  "tokenize_from st acc [] = (case st of
      Between \<Rightarrow> Some acc
    | InNumber ns s \<Rightarrow> if number_ends ns then Some (acc @ [TNumber s]) else None
    | _ \<Rightarrow> None)"
| "tokenize_from st acc (c # cs) = (case lex_step st acc c of
      None \<Rightarrow> None
    | Some (st', acc') \<Rightarrow> tokenize_from st' acc' cs)"

definition tokenize :: "string \<Rightarrow> token list option" where
  "tokenize src = tokenize_from Between [] src"

datatype jvalue =
    JNull
  | JBool bool
  | JNumber string
  | JString string
  | JArray "jvalue list"
  | JObject "(string \<times> jvalue) list"

subsection \<open>String literals\<close>

definition hexval :: "char \<Rightarrow> nat" where
  "hexval c =
     (if is_digit c then of_char c - 48
      else if c \<in> set ''abcdef'' then of_char c - 87
      else of_char c - 55)"

definition utf8 :: "nat \<Rightarrow> string" where
  "utf8 r =
     (if r < 128 then [char_of r]
      else if r < 2048 then [char_of (192 + r div 64), char_of (128 + r mod 64)]
      else if r < 65536 then
        [char_of (224 + r div 4096), char_of (128 + r div 64 mod 64), char_of (128 + r mod 64)]
      else
        [char_of (240 + r div 262144), char_of (128 + r div 4096 mod 64),
         char_of (128 + r div 64 mod 64), char_of (128 + r mod 64)])"

definition replacement :: string where
  "replacement = utf8 65533"

definition is_high_surrogate :: "nat \<Rightarrow> bool" where
  "is_high_surrogate r \<longleftrightarrow> 55296 \<le> r \<and> r < 56320"

definition is_low_surrogate :: "nat \<Rightarrow> bool" where
  "is_low_surrogate r \<longleftrightarrow> 56320 \<le> r \<and> r < 57344"

definition escaped :: "char \<Rightarrow> char" where
  "escaped c =
     (if c = CHR ''b'' then CHR 0x08
      else if c = CHR ''f'' then CHR 0x0C
      else if c = CHR ''n'' then CHR 0x0A
      else if c = CHR ''r'' then CHR 0x0D
      else if c = CHR ''t'' then CHR 0x09
      else c)"

datatype unq = Plain | Esc | Hex nat nat

definition flush :: "nat option \<Rightarrow> string" where
  "flush pending = (case pending of None \<Rightarrow> [] | Some hi \<Rightarrow> replacement)"

definition rune :: "nat option \<Rightarrow> string \<Rightarrow> nat \<Rightarrow> nat option \<times> string" where
  "rune pending out r =
     (case pending of
        Some hi \<Rightarrow>
          if is_low_surrogate r
          then (None, out @ utf8 (65536 + (hi - 55296) * 1024 + (r - 56320)))
          else if is_high_surrogate r then (Some r, out @ replacement)
          else (None, out @ replacement @ utf8 r)
      | None \<Rightarrow>
          if is_high_surrogate r then (Some r, out)
          else if is_low_surrogate r then (None, out @ replacement)
          else (None, out @ utf8 r))"

fun unquote_from :: "unq \<Rightarrow> nat option \<Rightarrow> string \<Rightarrow> string \<Rightarrow> string" where
  "unquote_from st pending out [] = out @ flush pending"
| "unquote_from st pending out (c # cs) =
     (case st of
        Plain \<Rightarrow>
          if c = backslash then unquote_from Esc pending out cs
          else unquote_from Plain None (out @ flush pending @ [c]) cs
      | Esc \<Rightarrow>
          if c = CHR ''u'' then unquote_from (Hex 4 0) pending out cs
          else unquote_from Plain None (out @ flush pending @ [escaped c]) cs
      | Hex n v \<Rightarrow>
          if n \<le> 1
          then (case rune pending out (v * 16 + hexval c) of
                  (pending', out') \<Rightarrow> unquote_from Plain pending' out' cs)
          else unquote_from (Hex (n - 1) (v * 16 + hexval c)) pending out cs)"

definition unquote :: "string \<Rightarrow> string" where
  "unquote s = unquote_from Plain None [] s"

subsection \<open>Values\<close>

datatype frame =
    InArray "jvalue list"
  | InObject "(string \<times> jvalue) list" "string option"

datatype expect = Value | ValueOrEnd | KeyOrEnd | Key | Colon | CommaOrEnd | Done

type_synonym pstate = "frame list \<times> expect \<times> jvalue option"

definition maxNestingDepth :: nat where
  "maxNestingDepth = 10000"

definition complete :: "jvalue \<Rightarrow> frame list \<Rightarrow> pstate option" where
  "complete v stk = (case stk of
      [] \<Rightarrow> Some ([], Done, Some v)
    | InArray vs # st \<Rightarrow> Some (InArray (vs @ [v]) # st, CommaOrEnd, None)
    | InObject kvs (Some k) # st \<Rightarrow> Some (InObject (kvs @ [(k, v)]) None # st, CommaOrEnd, None)
    | InObject kvs None # st \<Rightarrow> None)"

definition push :: "frame \<Rightarrow> expect \<Rightarrow> frame list \<Rightarrow> pstate option" where
  "push f ex stk = (if length stk < maxNestingDepth then Some (f # stk, ex, None) else None)"

definition begin_value :: "token \<Rightarrow> frame list \<Rightarrow> pstate option" where
  "begin_value t stk = (case t of
      TBeginObject \<Rightarrow> push (InObject [] None) KeyOrEnd stk
    | TBeginArray \<Rightarrow> push (InArray []) ValueOrEnd stk
    | TString s \<Rightarrow> complete (JString (unquote s)) stk
    | TNumber s \<Rightarrow> complete (JNumber s) stk
    | TTrue \<Rightarrow> complete (JBool True) stk
    | TFalse \<Rightarrow> complete (JBool False) stk
    | TNull \<Rightarrow> complete JNull stk
    | _ \<Rightarrow> None)"

definition object_key :: "token \<Rightarrow> frame list \<Rightarrow> pstate option" where
  "object_key t stk = (case (t, stk) of
      (TString s, InObject kvs _ # st) \<Rightarrow> Some (InObject kvs (Some (unquote s)) # st, Colon, None)
    | _ \<Rightarrow> None)"

definition end_array :: "frame list \<Rightarrow> pstate option" where
  "end_array stk = (case stk of InArray vs # st \<Rightarrow> complete (JArray vs) st | _ \<Rightarrow> None)"

definition end_object :: "frame list \<Rightarrow> pstate option" where
  "end_object stk = (case stk of InObject kvs _ # st \<Rightarrow> complete (JObject kvs) st | _ \<Rightarrow> None)"

definition parse_step :: "pstate \<Rightarrow> token \<Rightarrow> pstate option" where
  "parse_step ps t = (case ps of (stk, ex, res) \<Rightarrow>
     (case ex of
        Value \<Rightarrow> begin_value t stk
      | ValueOrEnd \<Rightarrow> if t = TEndArray then end_array stk else begin_value t stk
      | KeyOrEnd \<Rightarrow> if t = TEndObject then end_object stk else object_key t stk
      | Key \<Rightarrow> object_key t stk
      | Colon \<Rightarrow> if t = TColon then Some (stk, Value, None) else None
      | CommaOrEnd \<Rightarrow>
          (case stk of
             InArray vs # st \<Rightarrow>
               if t = TComma then Some (stk, Value, None)
               else if t = TEndArray then end_array stk else None
           | InObject kvs k # st \<Rightarrow>
               if t = TComma then Some (stk, Key, None)
               else if t = TEndObject then end_object stk else None
           | [] \<Rightarrow> None)
      | Done \<Rightarrow> None))"

fun parse_from :: "pstate \<Rightarrow> token list \<Rightarrow> jvalue option" where
  "parse_from ps [] = (case ps of (stk, ex, res) \<Rightarrow> if ex = Done then res else None)"
| "parse_from ps (t # ts) =
     (case parse_step ps t of None \<Rightarrow> None | Some ps' \<Rightarrow> parse_from ps' ts)"

definition parse_tokens :: "token list \<Rightarrow> jvalue option" where
  "parse_tokens ts = parse_from ([], Value, None) ts"

definition json_parse :: "string \<Rightarrow> jvalue option" where
  "json_parse src = (case tokenize src of None \<Rightarrow> None | Some ts \<Rightarrow> parse_tokens ts)"

text \<open>
  \<open>json.Compact\<close>: an error (\<open>None\<close>) unless the text is one JSON value, else the text
  without the white space between its tokens.
\<close>

definition json_Compact :: "string \<Rightarrow> string option" where
  "json_Compact src =
     (case tokenize src of
        None \<Rightarrow> None
      | Some ts \<Rightarrow>
          (case parse_tokens ts of None \<Rightarrow> None | Some v \<Rightarrow> Some (concat (map token_text ts))))"

subsection \<open>Numbers\<close>

text \<open>
  \<open>ParseInt\<close> reads a literal into an \<open>int\<close> field: digits only, within 64 bits.
  \<open>ParseFloat\<close> reads it into a \<open>float64\<close>: an error when the value rounds to an
  infinity. The model keeps the exact decimal value where the library rounds it to the
  nearest \<open>float64\<close>; the two agree on every whole number up to \<open>2^53\<close>.
\<close>

definition digits_value :: "string \<Rightarrow> int" where
  "digits_value ds = foldl (\<lambda>a c. 10 * a + (of_char c - 48)) 0 ds"

definition ParseInt :: "string \<Rightarrow> int option" where
  "ParseInt lit =
     (let neg = (take 1 lit = ''-'');
          ds = (if neg then drop 1 lit else lit);
          v = (if neg then - digits_value ds else digits_value ds)
      in if ds \<noteq> [] \<and> list_all is_digit ds \<and> - (2 ^ 63) \<le> v \<and> v < 2 ^ 63
         then Some v else None)"

definition not_exp :: "char \<Rightarrow> bool" where
  "not_exp c \<longleftrightarrow> c \<noteq> CHR ''e'' \<and> c \<noteq> CHR ''E''"

definition literal_value :: "string \<Rightarrow> rat" where
  "literal_value lit =
     (let neg = (take 1 lit = ''-'');
          body = (if neg then drop 1 lit else lit);
          mant = takeWhile not_exp body;
          ex = drop 1 (dropWhile not_exp body);
          ip = takeWhile is_digit mant;
          fp = drop 1 (dropWhile is_digit mant);
          eneg = (take 1 ex = ''-'');
          ed = (if take 1 ex = ''-'' \<or> take 1 ex = ''+'' then drop 1 ex else ex);
          m = of_int (digits_value (ip @ fp)) / 10 ^ length fp;
          a = (if eneg then m / 10 ^ nat (digits_value ed) else m * 10 ^ nat (digits_value ed))
      in if neg then - a else a)"

definition float64_overflow :: rat where
  "float64_overflow = 2 ^ 970 * (2 ^ 54 - 1)"

definition ParseFloat :: "string \<Rightarrow> rat option" where
  "ParseFloat lit =
     (let v = literal_value lit
      in if \<bar>v\<bar> < float64_overflow then Some v else None)"

section \<open>Writing JSON\<close>

text \<open>
  The text that \<open>json.Marshal\<close> writes for a value: no white space, and in a string
  the quote, the backslash, the control characters and \<open><\<close>, \<open>>\<close>, \<open>&\<close> escaped.
  Bytes above 0x7F are copied, which is what the library does on well-formed UTF-8
  other than U+2028 and U+2029 (it writes those two as escapes, and U+FFFD for
  ill-formed bytes). Backspace and form feed are written \<open>\u0008\<close> and \<open>\u000c\<close>;
  Go 1.22 and later write the two-character escapes, which decode alike.
\<close>

definition hex_digit :: "nat \<Rightarrow> char" where
  "hex_digit n = ''0123456789abcdef'' ! n"

definition escape_byte :: "char \<Rightarrow> string" where
  "escape_byte c =
     (if c = dquote \<or> c = backslash then [backslash, c]
      else if c = CHR 0x0A then [backslash, CHR ''n'']
      else if c = CHR 0x0D then [backslash, CHR ''r'']
      else if c = CHR 0x09 then [backslash, CHR ''t'']
      else if (of_char c :: nat) < 32 \<or> c \<in> set ''<>&''
        then backslash # ''u00'' @ [hex_digit (of_char c div 16), hex_digit (of_char c mod 16)]
      else [c])"

definition quote :: "string \<Rightarrow> string" where
  "quote s = dquote # concat (map escape_byte s) @ [dquote]"

fun join :: "string \<Rightarrow> string list \<Rightarrow> string" where
  "join sep [] = []"
| "join sep [x] = x"
| "join sep (x # y # ys) = x @ sep @ join sep (y # ys)"

fun json_text :: "jvalue \<Rightarrow> string" where
  "json_text JNull = ''null''"
| "json_text (JBool b) = (if b then ''true'' else ''false'')"
| "json_text (JNumber lit) = lit"
| "json_text (JString s) = quote s"
| "json_text (JArray vs) = ''['' @ join '','' (map json_text vs) @ '']''"
| "json_text (JObject kvs) =
     ''{'' @ join '','' (map (\<lambda>kv. quote (fst kv) @ '':'' @ json_text (snd kv)) kvs) @ ''}''"

section \<open>Decoding into the error model\<close>

text \<open>
  \<open>json.Unmarshal\<close> into a struct matches each key of the object against the keys of
  the exported fields (the name in the \<open>json\<close> tag, the name of the field when it has
  no tag), an exact match first and a match up to case otherwise; a key that matches
  no field is skipped. A value that does not fit its field is reported and the field is
  left as it was, and decoding goes on with the next key. \<open>null\<close> changes nothing in a
  string, a number or a struct and sets an interface, a slice and a map to \<open>nil\<close>.
  Only the ASCII letters are folded here; the library also folds U+017F and U+212A.
\<close>

definition to_lower :: "char \<Rightarrow> char" where
  "to_lower c =
     (if c \<in> set ''ABCDEFGHIJKLMNOPQRSTUVWXYZ'' then char_of (of_char c + (32 :: nat)) else c)"

definition equal_fold :: "string \<Rightarrow> string \<Rightarrow> bool" where
  "equal_fold a b \<longleftrightarrow> map to_lower a = map to_lower b"

definition field_for :: "string list \<Rightarrow> string \<Rightarrow> string option" where
  "field_for names key = (if key \<in> set names then Some key else find (equal_fold key) names)"

text \<open>A JSON value decoded into an \<open>interface{}\<close>; a number that overflows is
  reported and the \<open>interface{}\<close> stays \<open>nil\<close>. In a map the last of two equal keys
  wins.\<close>

fun dyn_of_json :: "jvalue \<Rightarrow> dyn" where
  "dyn_of_json JNull = DNil"
| "dyn_of_json (JBool b) = DBool b"
| "dyn_of_json (JNumber lit) = (case ParseFloat lit of Some f \<Rightarrow> DFloat64 f | None \<Rightarrow> DNil)"
| "dyn_of_json (JString s) = DString s"
| "dyn_of_json (JArray vs) = DSlice (map dyn_of_json vs)"
| "dyn_of_json (JObject kvs) =
     DMap (foldl (\<lambda>m kv. AList.update (fst kv) (snd kv) m) []
       (map (\<lambda>kv. (fst kv, dyn_of_json (snd kv))) kvs))"

definition decode_string :: "jvalue \<Rightarrow> string \<Rightarrow> string" where
  "decode_string v old = (case v of JString s \<Rightarrow> s | _ \<Rightarrow> old)"

definition decode_int :: "jvalue \<Rightarrow> int \<Rightarrow> int" where
  "decode_int v old =
     (case v of
        JNumber lit \<Rightarrow> (case ParseInt lit of Some n \<Rightarrow> n | None \<Rightarrow> old)
      | _ \<Rightarrow> old)"

definition decode_map :: "jvalue \<Rightarrow> (string \<times> dyn) list \<Rightarrow> (string \<times> dyn) list" where
  "decode_map v old =
     (case v of
        JObject kvs \<Rightarrow> foldl (\<lambda>m kv. AList.update (fst kv) (dyn_of_json (snd kv)) m) old kvs
      | JNull \<Rightarrow> []
      | _ \<Rightarrow> old)"

definition FieldError_keys :: "string list" where
  "FieldError_keys = [''field'', ''additional_info'', ''message'', ''code'']"

definition store_FieldError :: "FieldError \<Rightarrow> string \<times> jvalue \<Rightarrow> FieldError" where
  "store_FieldError fe kv =
     (case field_for FieldError_keys (fst kv) of
        None \<Rightarrow> fe
      | Some k \<Rightarrow>
          if k = ''field'' then fe\<lparr>Field := decode_string (snd kv) (Field fe)\<rparr>
          else if k = ''additional_info''
            then fe\<lparr>AdditionalInfo := decode_map (snd kv) (AdditionalInfo fe)\<rparr>
          else if k = ''message'' then fe\<lparr>Message := decode_string (snd kv) (Message fe)\<rparr>
          else fe\<lparr>Code := decode_string (snd kv) (Code fe)\<rparr>)"

definition decode_FieldError :: "jvalue \<Rightarrow> FieldError \<Rightarrow> FieldError" where
  "decode_FieldError v old = (case v of JObject kvs \<Rightarrow> foldl store_FieldError old kvs | _ \<Rightarrow> old)"

definition zero_FieldError :: FieldError where
  "zero_FieldError = \<lparr>Field = [], AdditionalInfo = [], Message = [], Code = []\<rparr>"

text \<open>An array into a slice: element \<open>i\<close> is decoded into the element the slice holds
  at \<open>i\<close>, into a zero element past its length, and the slice ends with the array.\<close>

fun decode_elements :: "jvalue list \<Rightarrow> FieldError list \<Rightarrow> FieldError list" where
  "decode_elements [] old = []"
| "decode_elements (v # vs) [] = decode_FieldError v zero_FieldError # decode_elements vs []"
| "decode_elements (v # vs) (e # es) = decode_FieldError v e # decode_elements vs es"

definition decode_Errors :: "jvalue \<Rightarrow> FieldError list \<Rightarrow> FieldError list" where
  "decode_Errors v old =
     (case v of JArray vs \<Rightarrow> decode_elements vs old | JNull \<Rightarrow> [] | _ \<Rightarrow> old)"

text \<open>
  The keys of \<open>APIError\<close>: all six fields are exported, so the four without a tag are
  decoded under their own names. \<open>Err\<close> is an interface with a method: \<open>null\<close> sets it
  to \<open>nil\<close>, and no other value changes it (the error of \<open>fmt.Errorf\<close> that it holds
  has no exported field).
\<close>

definition APIError_keys :: "string list" where
  "APIError_keys = [''Err'', ''ReqBody'', ''ResBody'', ''description'', ''errors'', ''StatusCode'']"

definition store_APIError :: "APIError \<Rightarrow> string \<times> jvalue \<Rightarrow> APIError" where
  "store_APIError e kv =
     (case field_for APIError_keys (fst kv) of
        None \<Rightarrow> e
      | Some k \<Rightarrow>
          if k = ''Err'' then (if snd kv = JNull then e\<lparr>Err := None\<rparr> else e)
          else if k = ''ReqBody'' then e\<lparr>ReqBody := decode_string (snd kv) (ReqBody e)\<rparr>
          else if k = ''ResBody'' then e\<lparr>ResBody := decode_string (snd kv) (ResBody e)\<rparr>
          else if k = ''description''
            then e\<lparr>Description := decode_string (snd kv) (Description e)\<rparr>
          else if k = ''errors'' then e\<lparr>Errors := decode_Errors (snd kv) (Errors e)\<rparr>
          else e\<lparr>StatusCode := decode_int (snd kv) (StatusCode e)\<rparr>)"

text \<open>\<open>json.Unmarshal(data, e)\<close> for \<open>e *APIError\<close>, the returned error dropped: a text
  that is not JSON, or not an object, leaves \<open>e\<close> as it was.\<close>

definition Unmarshal_APIError :: "string \<Rightarrow> APIError \<Rightarrow> APIError" where
  "Unmarshal_APIError data e =
     (case json_parse data of Some (JObject kvs) \<Rightarrow> foldl store_APIError e kvs | _ \<Rightarrow> e)"

text \<open>
  \<^verbatim>\<open>
  func NewApiError(statusCode, expectedStatus int, req, res string) *APIError {
      i := &APIError{
          Err:        fmt.Errorf("received status code %d (%d expected)", statusCode, expectedStatus),
          ReqBody:    req,
          ResBody:    res,
          StatusCode: statusCode,
      }
      _ = json.Unmarshal([]byte(res), i)
      return i
  }
  \<close>
\<close>

definition base_APIError :: "int \<Rightarrow> int \<Rightarrow> string \<Rightarrow> string \<Rightarrow> APIError" where
  "base_APIError statusCode expectedStatus req res =
     \<lparr>Err = Some (''received status code '' @ format_int statusCode @ '' ('' @
               format_int expectedStatus @ '' expected)''),
      ReqBody = req, ResBody = res, Description = [], Errors = [],
      StatusCode = statusCode\<rparr>"

definition NewApiError :: "int \<Rightarrow> int \<Rightarrow> string \<Rightarrow> string \<Rightarrow> APIError" where
  "NewApiError statusCode expectedStatus req res =
     Unmarshal_APIError res (base_APIError statusCode expectedStatus req res)"

section \<open>Errors and the library around the client\<close>

text \<open>
  A value of the interface \<open>error\<close>: the \<open>*APIError\<close> of this package, or an error of
  a library, told apart by where it comes from and kept as its message.
\<close>

datatype go_error =
    ErrorString string
  | InvalidMethod string
  | UnsupportedTypeError string
  | MarshalerError string
  | DecodeError string
  | ApiError APIError

definition is_ApiError :: "go_error \<Rightarrow> bool" where
  "is_ApiError err = (case err of ApiError e \<Rightarrow> True | _ \<Rightarrow> False)"

text \<open>
  What the client takes from the standard library and is not modelled further:
  \<open>time.Time\<close>, which is the type parameter \<open>'t\<close> throughout, with its two JSON
  methods and its zero value; the formatting of a \<open>float64\<close>; and \<open>url.Parse\<close> (the
  error it gives for a URL it rejects).
\<close>

record 't golib =
  url_Parse :: "string \<Rightarrow> string option"
  FormatFloat :: "rat \<Rightarrow> string"
  Time_MarshalJSON :: "'t \<Rightarrow> string + string"
  Time_UnmarshalJSON :: "string \<Rightarrow> string + 't"
  Time_zero :: 't

section \<open>Contact\<close>

text \<open>
  The struct \<open>Contact\<close>. A pointer is an \<open>option\<close>; a slice and a map are an
  \<open>option\<close> of a list, \<open>None\<close> for \<open>nil\<close>, since \<open>omitempty\<close> and the decoder tell
  \<open>nil\<close> from empty. The field \<open>Description\<close> is \<open>Description_Contact\<close> here (the
  name is taken by \<open>APIError\<close>). The tags, in the order of the fields:
  \<^verbatim>\<open>
  id,omitempty  unique_external_id,omitempty  active  deleted,omitempty
  created_at,omitempty  updated_at,omitempty  view_all_tickets  name
  job_title,omitempty  description,omitempty  address,omitempty  email,omitempty
  other_emails,omitempty  phone,omitempty  mobile,omitempty
  other_phone_numbers,omitempty  twitter_id,omitempty  time_zone,omitempty
  language,omitempty  company_id,omitempty  other_companies,omitempty
  tags,omitempty  custom_fields,omitempty
  \<close>
\<close>

type_synonym string_map = "(string \<times> string) list"

record 't Contact =
  ID :: "64 word"
  UniqueExternalID :: string
  Active :: bool
  Deleted :: bool
  CreatedAt :: "'t option"
  UpdatedAt :: "'t option"
  ViewAllTickets :: bool
  Name :: string
  JobTitle :: "string option"
  Description_Contact :: "string option"
  Address :: "string option"
  Email :: string
  OtherEmails :: "string list option"
  Phone :: "string option"
  Mobile :: "string option"
  OtherPhones :: "string_map option list option"
  TwitterID :: "string option"
  TimeZone :: "string option"
  Language :: "string option"
  CompanyID :: "string option"
  OtherCompanies :: "string_map option list option"
  Tags :: "string list option"
  CustomFields :: "(string \<times> dyn) list option"

subsection \<open>Encoding\<close>

text \<open>
  A struct is written as an object with its fields in their order; a field tagged
  \<open>omitempty\<close> is left out when it is \<open>false\<close>, 0, a nil pointer, or a string, slice or
  map of length 0. A map is written with its keys sorted; a nil map or slice that is
  not left out is \<open>null\<close>. The first value that cannot be written ends the encoding
  with its error.
\<close>

fun collect :: "('e + 'a) list \<Rightarrow> 'e + 'a list" where
  "collect [] = Inr []"
| "collect (x # xs) =
     (case x of
        Inl e \<Rightarrow> Inl e
      | Inr v \<Rightarrow> (case collect xs of Inl e \<Rightarrow> Inl e | Inr vs \<Rightarrow> Inr (v # vs)))"

definition sorted_entries :: "(string \<times> 'v) list \<Rightarrow> (string \<times> 'v) list" where
  "sorted_entries m = sort_key fst (AList.clearjunk m)"

definition entry :: "string \<times> ('e + 'a) \<Rightarrow> 'e + (string \<times> 'a)" where
  "entry kv = (case snd kv of Inl e \<Rightarrow> Inl e | Inr v \<Rightarrow> Inr (fst kv, v))"

fun dyn_json :: "'t golib \<Rightarrow> dyn \<Rightarrow> go_error + jvalue" where
  "dyn_json L DNil = Inr JNull"
| "dyn_json L (DBool b) = Inr (JBool b)"
| "dyn_json L (DFloat64 f) = Inr (JNumber (FormatFloat L f))"
| "dyn_json L (DString s) = Inr (JString s)"
| "dyn_json L (DSlice vs) =
     (case collect (map (dyn_json L) vs) of Inl e \<Rightarrow> Inl e | Inr js \<Rightarrow> Inr (JArray js))"
| "dyn_json L (DMap m) =
     (case collect (map entry (sorted_entries (map (\<lambda>kv. (fst kv, dyn_json L (snd kv))) m))) of
        Inl e \<Rightarrow> Inl e
      | Inr kvs \<Rightarrow> Inr (JObject kvs))"
| "dyn_json L (DUnsupported ty) = Inl (UnsupportedTypeError ty)"

definition member_if :: "bool \<Rightarrow> string \<Rightarrow> jvalue \<Rightarrow> (string \<times> jvalue) list" where
  "member_if keep k v = (if keep then [(k, v)] else [])"

definition uint64_json :: "64 word \<Rightarrow> jvalue" where
  "uint64_json n = JNumber (decimal (unat n))"

definition pointer_member :: "string \<Rightarrow> string option \<Rightarrow> (string \<times> jvalue) list" where
  "pointer_member k p = (case p of None \<Rightarrow> [] | Some s \<Rightarrow> [(k, JString s)])"

definition strings_member :: "string \<Rightarrow> string list option \<Rightarrow> (string \<times> jvalue) list" where
  "strings_member k xs =
     (case xs of None \<Rightarrow> [] | Some l \<Rightarrow> member_if (l \<noteq> []) k (JArray (map JString l)))"

definition string_map_json :: "string_map option \<Rightarrow> jvalue" where
  "string_map_json m =
     (case m of
        None \<Rightarrow> JNull
      | Some kvs \<Rightarrow> JObject (map (\<lambda>kv. (fst kv, JString (snd kv))) (sorted_entries kvs)))"

definition maps_member ::
    "string \<Rightarrow> string_map option list option \<Rightarrow> (string \<times> jvalue) list" where
  "maps_member k xs =
     (case xs of None \<Rightarrow> [] | Some l \<Rightarrow> member_if (l \<noteq> []) k (JArray (map string_map_json l)))"

definition time_member ::
    "'t golib \<Rightarrow> string \<Rightarrow> 't option \<Rightarrow> go_error + (string \<times> jvalue) list" where
  "time_member L k p =
     (case p of
        None \<Rightarrow> Inr []
      | Some t \<Rightarrow>
          (case Time_MarshalJSON L t of
             Inl msg \<Rightarrow> Inl (MarshalerError msg)
           | Inr s \<Rightarrow> Inr [(k, JString s)]))"

definition custom_member ::
    "'t golib \<Rightarrow> string \<Rightarrow> (string \<times> dyn) list option \<Rightarrow> go_error + (string \<times> jvalue) list" where
  "custom_member L k m =
     (case m of
        None \<Rightarrow> Inr []
      | Some kvs \<Rightarrow>
          if kvs = [] then Inr []
          else (case dyn_json L (DMap kvs) of Inl e \<Rightarrow> Inl e | Inr j \<Rightarrow> Inr [(k, j)]))"

definition Contact_json :: "'t golib \<Rightarrow> 't Contact \<Rightarrow> go_error + jvalue" where
  "Contact_json L c =
     (case time_member L ''created_at'' (CreatedAt c) of
        Inl e \<Rightarrow> Inl e
      | Inr created \<Rightarrow>
     (case time_member L ''updated_at'' (UpdatedAt c) of
        Inl e \<Rightarrow> Inl e
      | Inr updated \<Rightarrow>
     (case custom_member L ''custom_fields'' (CustomFields c) of
        Inl e \<Rightarrow> Inl e
      | Inr custom \<Rightarrow>
          Inr (JObject
           (member_if (ID c \<noteq> 0) ''id'' (uint64_json (ID c)) @
            member_if (UniqueExternalID c \<noteq> []) ''unique_external_id''
              (JString (UniqueExternalID c)) @
            [(''active'', JBool (Active c))] @
            member_if (Deleted c) ''deleted'' (JBool (Deleted c)) @
            created @
            updated @
            [(''view_all_tickets'', JBool (ViewAllTickets c))] @
            [(''name'', JString (Name c))] @
            pointer_member ''job_title'' (JobTitle c) @
            pointer_member ''description'' (Description_Contact c) @
            pointer_member ''address'' (Address c) @
            member_if (Email c \<noteq> []) ''email'' (JString (Email c)) @
            strings_member ''other_emails'' (OtherEmails c) @
            pointer_member ''phone'' (Phone c) @
            pointer_member ''mobile'' (Mobile c) @
            maps_member ''other_phone_numbers'' (OtherPhones c) @
            pointer_member ''twitter_id'' (TwitterID c) @
            pointer_member ''time_zone'' (TimeZone c) @
            pointer_member ''language'' (Language c) @
            pointer_member ''company_id'' (CompanyID c) @
            maps_member ''other_companies'' (OtherCompanies c) @
            strings_member ''tags'' (Tags c) @
            custom)))))"

text \<open>\<open>json.Marshal(c)\<close> for \<open>c *Contact\<close>, as in \<open>Hash\<close>; a nil pointer is \<open>null\<close>.\<close>

definition Marshal_Contact :: "'t golib \<Rightarrow> 't Contact option \<Rightarrow> go_error + string" where
  "Marshal_Contact L p =
     (case p of
        None \<Rightarrow> Inr ''null''
      | Some c \<Rightarrow> (case Contact_json L c of Inl e \<Rightarrow> Inl e | Inr j \<Rightarrow> Inr (json_text j)))"

text \<open>The zero value, behind the pointer that \<open>new(Contact)\<close> gives.\<close>

definition zero_Contact :: "'t Contact" where
  "zero_Contact =
     \<lparr>ID = 0, UniqueExternalID = [], Active = False, Deleted = False, CreatedAt = None,
      UpdatedAt = None, ViewAllTickets = False, Name = [], JobTitle = None,
      Description_Contact = None, Address = None, Email = [], OtherEmails = None,
      Phone = None, Mobile = None, OtherPhones = None, TwitterID = None, TimeZone = None,
      Language = None, CompanyID = None, OtherCompanies = None, Tags = None,
      CustomFields = None\<rparr>"

subsection \<open>Decoding\<close>

text \<open>
  \<open>json.Unmarshal\<close> into a \<open>*Contact\<close>, field by field as for \<open>APIError\<close>. A pointer
  is set to \<open>nil\<close> by \<open>null\<close> and is allocated before any other value is decoded into
  it, so a value of the wrong type leaves it pointing to what it pointed to, or to a
  zero value. A time is decoded by its own method, here from the content of the JSON
  string. An unsigned number is read from digits only, below \<open>2^64\<close>.
\<close>

definition ParseUint :: "string \<Rightarrow> int option" where
  "ParseUint lit =
     (if lit \<noteq> [] \<and> list_all is_digit lit \<and> digits_value lit < 2 ^ 64
      then Some (digits_value lit) else None)"

definition decode_uint64 :: "jvalue \<Rightarrow> 64 word \<Rightarrow> 64 word" where
  "decode_uint64 v old =
     (case v of
        JNumber lit \<Rightarrow> (case ParseUint lit of Some n \<Rightarrow> word_of_int n | None \<Rightarrow> old)
      | _ \<Rightarrow> old)"

definition decode_bool :: "jvalue \<Rightarrow> bool \<Rightarrow> bool" where
  "decode_bool v old = (case v of JBool b \<Rightarrow> b | _ \<Rightarrow> old)"

definition decode_pointer :: "jvalue \<Rightarrow> string option \<Rightarrow> string option" where
  "decode_pointer v old =
     (case v of
        JNull \<Rightarrow> None
      | JString s \<Rightarrow> Some s
      | _ \<Rightarrow> Some (case old of None \<Rightarrow> [] | Some s \<Rightarrow> s))"

definition decode_time :: "'t golib \<Rightarrow> jvalue \<Rightarrow> 't option \<Rightarrow> 't option" where
  "decode_time L v old =
     (case v of
        JNull \<Rightarrow> None
      | JString s \<Rightarrow>
          (case Time_UnmarshalJSON L s of Inr t \<Rightarrow> Some t | Inl msg \<Rightarrow> Some (Time_zero L))
      | _ \<Rightarrow> Some (case old of None \<Rightarrow> Time_zero L | Some t \<Rightarrow> t))"

fun decode_each :: "(jvalue \<Rightarrow> 'a \<Rightarrow> 'a) \<Rightarrow> 'a \<Rightarrow> jvalue list \<Rightarrow> 'a list \<Rightarrow> 'a list" where
  "decode_each d z [] old = []"
| "decode_each d z (v # vs) [] = d v z # decode_each d z vs []"
| "decode_each d z (v # vs) (e # es) = d v e # decode_each d z vs es"

definition decode_slice ::
    "(jvalue \<Rightarrow> 'a \<Rightarrow> 'a) \<Rightarrow> 'a \<Rightarrow> jvalue \<Rightarrow> 'a list option \<Rightarrow> 'a list option" where
  "decode_slice d z v old =
     (case v of
        JNull \<Rightarrow> None
      | JArray vs \<Rightarrow> Some (decode_each d z vs (case old of None \<Rightarrow> [] | Some l \<Rightarrow> l))
      | _ \<Rightarrow> old)"

definition decode_string_map :: "jvalue \<Rightarrow> string_map option \<Rightarrow> string_map option" where
  "decode_string_map v old =
     (case v of
        JNull \<Rightarrow> None
      | JObject kvs \<Rightarrow>
          Some (foldl (\<lambda>m kv. AList.update (fst kv) (decode_string (snd kv) []) m)
                  (case old of None \<Rightarrow> [] | Some m \<Rightarrow> m) kvs)
      | _ \<Rightarrow> old)"

definition decode_custom ::
    "jvalue \<Rightarrow> (string \<times> dyn) list option \<Rightarrow> (string \<times> dyn) list option" where
  "decode_custom v old =
     (case v of
        JNull \<Rightarrow> None
      | JObject kvs \<Rightarrow>
          Some (foldl (\<lambda>m kv. AList.update (fst kv) (dyn_of_json (snd kv)) m)
                  (case old of None \<Rightarrow> [] | Some m \<Rightarrow> m) kvs)
      | _ \<Rightarrow> old)"

definition Contact_keys :: "string list" where
  "Contact_keys =
     [''id'', ''unique_external_id'', ''active'', ''deleted'', ''created_at'', ''updated_at'',
      ''view_all_tickets'', ''name'', ''job_title'', ''description'', ''address'', ''email'',
      ''other_emails'', ''phone'', ''mobile'', ''other_phone_numbers'', ''twitter_id'',
      ''time_zone'', ''language'', ''company_id'', ''other_companies'', ''tags'',
      ''custom_fields'']"

definition store_Contact :: "'t golib \<Rightarrow> 't Contact \<Rightarrow> string \<times> jvalue \<Rightarrow> 't Contact" where
  "store_Contact L c kv =
     (case field_for Contact_keys (fst kv) of
        None \<Rightarrow> c
      | Some k \<Rightarrow>
          let v = snd kv in
          if k = ''id'' then c\<lparr>ID := decode_uint64 v (ID c)\<rparr>
          else if k = ''unique_external_id''
            then c\<lparr>UniqueExternalID := decode_string v (UniqueExternalID c)\<rparr>
          else if k = ''active'' then c\<lparr>Active := decode_bool v (Active c)\<rparr>
          else if k = ''deleted'' then c\<lparr>Deleted := decode_bool v (Deleted c)\<rparr>
          else if k = ''created_at'' then c\<lparr>CreatedAt := decode_time L v (CreatedAt c)\<rparr>
          else if k = ''updated_at'' then c\<lparr>UpdatedAt := decode_time L v (UpdatedAt c)\<rparr>
          else if k = ''view_all_tickets''
            then c\<lparr>ViewAllTickets := decode_bool v (ViewAllTickets c)\<rparr>
          else if k = ''name'' then c\<lparr>Name := decode_string v (Name c)\<rparr>
          else if k = ''job_title'' then c\<lparr>JobTitle := decode_pointer v (JobTitle c)\<rparr>
          else if k = ''description''
            then c\<lparr>Description_Contact := decode_pointer v (Description_Contact c)\<rparr>
          else if k = ''address'' then c\<lparr>Address := decode_pointer v (Address c)\<rparr>
          else if k = ''email'' then c\<lparr>Email := decode_string v (Email c)\<rparr>
          else if k = ''other_emails''
            then c\<lparr>OtherEmails := decode_slice decode_string [] v (OtherEmails c)\<rparr>
          else if k = ''phone'' then c\<lparr>Phone := decode_pointer v (Phone c)\<rparr>
          else if k = ''mobile'' then c\<lparr>Mobile := decode_pointer v (Mobile c)\<rparr>
          else if k = ''other_phone_numbers''
            then c\<lparr>OtherPhones := decode_slice decode_string_map None v (OtherPhones c)\<rparr>
          else if k = ''twitter_id'' then c\<lparr>TwitterID := decode_pointer v (TwitterID c)\<rparr>
          else if k = ''time_zone'' then c\<lparr>TimeZone := decode_pointer v (TimeZone c)\<rparr>
          else if k = ''language'' then c\<lparr>Language := decode_pointer v (Language c)\<rparr>
          else if k = ''company_id'' then c\<lparr>CompanyID := decode_pointer v (CompanyID c)\<rparr>
          else if k = ''other_companies''
            then c\<lparr>OtherCompanies := decode_slice decode_string_map None v (OtherCompanies c)\<rparr>
          else if k = ''tags'' then c\<lparr>Tags := decode_slice decode_string [] v (Tags c)\<rparr>
          else c\<lparr>CustomFields := decode_custom v (CustomFields c)\<rparr>)"

definition Contact_of_json :: "'t golib \<Rightarrow> jvalue \<Rightarrow> 't Contact \<Rightarrow> 't Contact" where
  "Contact_of_json L v c = (case v of JObject kvs \<Rightarrow> foldl (store_Contact L) c kvs | _ \<Rightarrow> c)"

text \<open>\<open>json.Unmarshal(data, c)\<close> for \<open>c *Contact\<close>: the value behind \<open>c\<close> afterwards
  (a text that is not JSON leaves it as it was).\<close>

definition Unmarshal_Contact :: "'t golib \<Rightarrow> string \<Rightarrow> 't Contact \<Rightarrow> 't Contact" where
  "Unmarshal_Contact L data c =
     (case json_parse data of Some v \<Rightarrow> Contact_of_json L v c | None \<Rightarrow> c)"

text \<open>
  The records on which the round trip is claimed. A Go map has no order and no two
  equal keys; the association list that stands for it holds its keys in increasing
  order. A value of \<open>custom_fields\<close> is one that the decoder produces, its numbers
  written by the library as JSON numbers that read back as the same number.
\<close>

definition ordered_keys :: "(string \<times> 'v) list \<Rightarrow> bool" where
  "ordered_keys m \<longleftrightarrow> sorted (map fst m) \<and> distinct (map fst m)"

fun plain_dyn :: "'t golib \<Rightarrow> dyn \<Rightarrow> bool" where
  "plain_dyn L DNil = True"
| "plain_dyn L (DBool b) = True"
| "plain_dyn L (DFloat64 f) = (ParseFloat (FormatFloat L f) = Some f)"
| "plain_dyn L (DString s) = True"
| "plain_dyn L (DSlice vs) = list_all (plain_dyn L) vs"
| "plain_dyn L (DMap m) = (ordered_keys m \<and> list_all (\<lambda>kv. plain_dyn L (snd kv)) m)"
| "plain_dyn L (DUnsupported ty) = False"

definition time_round_trip :: "'t golib \<Rightarrow> 't option \<Rightarrow> bool" where
  "time_round_trip L p =
     (case p of
        None \<Rightarrow> True
      | Some t \<Rightarrow>
          (case Time_MarshalJSON L t of
             Inl msg \<Rightarrow> False
           | Inr s \<Rightarrow> Time_UnmarshalJSON L s = Inr t))"

definition nil_or_filled :: "'a list option \<Rightarrow> bool" where
  "nil_or_filled xs \<longleftrightarrow> xs \<noteq> Some []"

definition ordered_maps :: "string_map option list option \<Rightarrow> bool" where
  "ordered_maps xs =
     (case xs of
        None \<Rightarrow> True
      | Some l \<Rightarrow> list_all (\<lambda>m. case m of None \<Rightarrow> True | Some kvs \<Rightarrow> ordered_keys kvs) l)"

definition round_trip_Contact :: "'t golib \<Rightarrow> 't Contact \<Rightarrow> bool" where
  "round_trip_Contact L c \<longleftrightarrow>
     nil_or_filled (OtherEmails c) \<and> nil_or_filled (Tags c) \<and>
     nil_or_filled (OtherPhones c) \<and> nil_or_filled (OtherCompanies c) \<and>
     nil_or_filled (CustomFields c) \<and>
     ordered_maps (OtherPhones c) \<and> ordered_maps (OtherCompanies c) \<and>
     time_round_trip L (CreatedAt c) \<and> time_round_trip L (UpdatedAt c) \<and>
     (case CustomFields c of None \<Rightarrow> True | Some m \<Rightarrow> plain_dyn L (DMap m))"

section \<open>Transport core\<close>

text \<open>
  A request as \<open>http.NewRequest\<close> makes it: \<open>Body\<close> is what is still unread of the
  reader over the marshalled bytes (\<open>bytes.NewReader(b)\<close>, client.go:62), so sending
  the request consumes it. A response carries its status code and its body, a stream
  that delivers bytes and then ends, with \<open>io.EOF\<close> (\<open>None\<close>) or with a read error.
\<close>

record Request =
  Method :: string
  URL :: string
  Header :: "(string \<times> string list) list"
  Body :: string

datatype stream = Stream string "string option"

record Response =
  Response_StatusCode :: int
  Response_Body :: stream

text \<open>
  \<open>c.httpClient.Do\<close>, the injected retrying transport: it gives an error or a
  response, and leaves of the request's body what it has not read.
\<close>

type_synonym transport = "Request \<Rightarrow> (go_error + Response) \<times> string"

record client =
  apiKey :: string
  baseURL :: string
  httpClient :: transport

definition NewClient :: "transport \<Rightarrow> string \<Rightarrow> string \<Rightarrow> client" where
  "NewClient rc subdomain key =
     \<lparr>apiKey = key, baseURL = ''https://'' @ subdomain @ ''.freshdesk.com/api/v2/'',
      httpClient = rc\<rparr>"

subsection \<open>Building a request\<close>

text \<open>
  The values that the package passes as \<open>body interface{}\<close>: a \<open>*Contact\<close> (\<open>Create\<close>,
  \<open>Update\<close>) or a \<open>[]byte\<close> that the caller has marshalled (\<open>HardDelete\<close>, \<open>Merge\<close>);
  the nil interface is \<open>None\<close>. \<open>json.Marshal\<close> writes a \<open>[]byte\<close> as a string, the
  bytes encoded in base64.
\<close>

datatype 't body = ContactPointer "'t Contact option" | Bytes string

definition json_Marshal :: "'t golib \<Rightarrow> 't body \<Rightarrow> go_error + string" where
  "json_Marshal L v =
     (case v of
        ContactPointer p \<Rightarrow> Marshal_Contact L p
      | Bytes b \<Rightarrow> Inr (json_text (JString (base64 b))))"

definition is_token_char :: "char \<Rightarrow> bool" where
  "is_token_char c \<longleftrightarrow>
     c \<in> set ''abcdefghijklmnopqrstuvwxyzABCDEFGHIJKLMNOPQRSTUVWXYZ0123456789!#$%&*+-.^_|~''
     \<or> c = CHR 0x27 \<or> c = CHR 0x60"

text \<open>\<open>http.NewRequest\<close>: an empty method is GET, a method that is not a token and a
  URL that does not parse are errors; the request has no header yet.\<close>

definition http_NewRequest :: "'t golib \<Rightarrow> string \<Rightarrow> string \<Rightarrow> string \<Rightarrow> go_error + Request" where
  "http_NewRequest L method url b =
     (let m = (if method = [] then ''GET'' else method)
      in if \<not> list_all is_token_char m then Inl (InvalidMethod m)
         else (case url_Parse L url of
                 Some msg \<Rightarrow> Inl (ErrorString msg)
               | None \<Rightarrow> Inr \<lparr>Method = m, URL = url, Header = [], Body = b\<rparr>))"

text \<open>\<open>Header.Set\<close> and \<open>Header.Add\<close>, on keys that are in canonical form already.\<close>

definition Header_Set :: "string \<Rightarrow> string \<Rightarrow> Request \<Rightarrow> Request" where
  "Header_Set k v r = r\<lparr>Header := AList.update k [v] (Header r)\<rparr>"

definition Header_Add :: "string \<Rightarrow> string \<Rightarrow> Request \<Rightarrow> Request" where
  "Header_Add k v r =
     r\<lparr>Header := AList.update k
        ((case map_of (Header r) k of None \<Rightarrow> [] | Some vs \<Rightarrow> vs) @ [v]) (Header r)\<rparr>"

definition SetBasicAuth :: "string \<Rightarrow> string \<Rightarrow> Request \<Rightarrow> Request" where
  "SetBasicAuth username password r =
     Header_Set ''Authorization'' (''Basic '' @ base64 (username @ '':'' @ password)) r"

text \<open>
  \<^verbatim>\<open>
  func (c *client) newRequest(method, endpoint string, body interface{}) (req *Request, err error) {
      b := make([]byte, 0)
      if body != nil {
          if b, err = json.Marshal(&body); err != nil {
              return
          }
      }
      bodyReader := bytes.NewReader(b)
      var raw *http.Request
      if raw, err = http.NewRequest(method, c.baseURL+endpoint, bodyReader); err != nil {
          return
      }
      raw.SetBasicAuth(c.apiKey, "X")
      raw.Header.Add("Content-Type", "application/json")
      return &Request{raw}, nil
  }
  \<close>
\<close>

definition newRequest ::
    "'t golib \<Rightarrow> client \<Rightarrow> string \<Rightarrow> string \<Rightarrow> 't body option \<Rightarrow> go_error + Request" where
  "newRequest L c method endpoint body =
     (case (case body of None \<Rightarrow> Inr [] | Some v \<Rightarrow> json_Marshal L v) of
        Inl err \<Rightarrow> Inl err
      | Inr b \<Rightarrow>
          (case http_NewRequest L method (baseURL c @ endpoint) b of
             Inl err \<Rightarrow> Inl err
           | Inr raw \<Rightarrow>
               Inr (Header_Add ''Content-Type'' ''application/json''
                     (SetBasicAuth (apiKey c) ''X'' raw))))"

subsection \<open>Payload capture\<close>

text \<open>
  \<^verbatim>\<open>
  func (r *Request) Payload() string {
      if body, err := io.ReadAll(r.Body); err == nil {
          var jsonBuffer bytes.Buffer
          if err = json.Compact(&jsonBuffer, body); err == nil {
              return jsonBuffer.String()
          }
      }
      return ""
  }
  \<close>
  and the same for \<open>*Response\<close>. Reading the body of a request cannot fail (it is a
  reader over bytes in memory); it gives what is still unread.
\<close>

definition Request_Payload :: "Request \<Rightarrow> string" where
  "Request_Payload r = (case json_Compact (Body r) of Some s \<Rightarrow> s | None \<Rightarrow> [])"

definition Response_Payload :: "Response \<Rightarrow> string" where
  "Response_Payload r =
     (case Response_Body r of
        Stream bs (Some err) \<Rightarrow> []
      | Stream bs None \<Rightarrow> (case json_Compact bs of Some s \<Rightarrow> s | None \<Rightarrow> []))"

subsection \<open>Executing a request\<close>

text \<open>
  The argument \<open>out interface{}\<close>: nil, or a pointer with the value behind it and the
  way \<open>json.NewDecoder(res.Body).Decode(out)\<close> decodes into its type (the error if
  any, and the value then behind the pointer).
  \<^verbatim>\<open>
  func (c *client) do(req *Request, out interface{}, expectedStatus int) error {
      raw, err := c.httpClient.Do(req.Request)
      if err != nil {
          return err
      }
      defer raw.Body.Close()
      res := &Response{raw}
      if res.StatusCode != expectedStatus {
          return NewApiError(
              res.StatusCode,
              expectedStatus,
              req.Payload(),
              res.Payload(),
          )
      }
      if out != nil {
          if err = json.NewDecoder(res.Body).Decode(out); err != nil {
              return err
          }
      }
      return nil
  }
  \<close>
  The result is the error returned (\<open>None\<close> for nil) and the value behind \<open>out\<close>
  afterwards. Closing the body is not modelled.
\<close>

record 'a target =
  pointee :: 'a
  Decode :: "stream \<Rightarrow> 'a \<Rightarrow> string option \<times> 'a"

definition do :: "client \<Rightarrow> Request \<Rightarrow> 'a target option \<Rightarrow> int \<Rightarrow> go_error option \<times> 'a option" where
  "do c req out expectedStatus =
     (case httpClient c req of
        (Inl err, unread) \<Rightarrow> (Some err, map_option pointee out)
      | (Inr raw, unread) \<Rightarrow>
          if Response_StatusCode raw \<noteq> expectedStatus then
            (Some (ApiError (NewApiError (Response_StatusCode raw) expectedStatus
                (Request_Payload (req\<lparr>Body := unread\<rparr>)) (Response_Payload raw))),
             map_option pointee out)
          else
            (case out of
               None \<Rightarrow> (None, None)
             | Some t \<Rightarrow>
                 (case Decode t (Response_Body raw) (pointee t) of
                    (Some msg, v) \<Rightarrow> (Some (DecodeError msg), Some v)
                  | (None, v) \<Rightarrow> (None, Some v))))"

section \<open>Contacts client\<close>

text \<open>
  The operations without a response to decode return the error of \<open>do\<close>; \<open>out\<close> is
  nil, so the type of the target is of no account (\<open>unit\<close>). Each is split into the
  request it builds and the call that sends it.
  \<^verbatim>\<open>
  func (c *contactsClient) HardDelete(id uint64, force bool) error {
      type params struct {
          ID uint64 `json:"id"`
          Force bool `json:"force"`
      }
      in, err := json.Marshal(&params{
          ID:    id,
          Force: force,
      })
      if err != nil {
          return err
      }
      req, err := c.client.newRequest(http.MethodDelete, fmt.Sprintf("contacts/%d/hard_delete", id), in)
      if err != nil {
          return err
      }
      return c.client.do(req, nil, http.StatusOK)
  }
  \<close>
\<close>

definition no_target :: "unit target option" where
  "no_target = None"

definition send :: "client \<Rightarrow> go_error + Request \<Rightarrow> int \<Rightarrow> go_error option" where
  "send c built expectedStatus =
     (case built of Inl err \<Rightarrow> Some err | Inr req \<Rightarrow> fst (do c req no_target expectedStatus))"

definition HardDelete_params :: "64 word \<Rightarrow> bool \<Rightarrow> jvalue" where
  "HardDelete_params cid force = JObject [(''id'', uint64_json cid), (''force'', JBool force)]"

definition HardDelete_request :: "'t golib \<Rightarrow> client \<Rightarrow> 64 word \<Rightarrow> bool \<Rightarrow> go_error + Request" where
  "HardDelete_request L c cid force =
     newRequest L c ''DELETE'' (''contacts/'' @ decimal (unat cid) @ ''/hard_delete'')
       (Some (Bytes (json_text (HardDelete_params cid force))))"

definition HardDelete :: "'t golib \<Rightarrow> client \<Rightarrow> 64 word \<Rightarrow> bool \<Rightarrow> go_error option" where
  "HardDelete L c cid force = send c (HardDelete_request L c cid force) 200"

text \<open>
  \<^verbatim>\<open>
  func (c *contactsClient) Merge(primaryID uint64, secondaryIDs []uint64, attrs *Contact) error {
      type params struct {
          PrimaryContactID uint64 `json:"primary_contact_id"`
          SecondaryContactIDs []uint64 `json:"secondary_contact_ids"`
          Contact *Contact `json:"contact,omitempty"`
      }
      in, err := json.Marshal(&params{
          PrimaryContactID:    primaryID,
          SecondaryContactIDs: secondaryIDs,
          Contact:             attrs,
      })
      if err != nil {
          return err
      }
      req, err := c.client.newRequest(http.MethodPost, "contacts/merge", in)
      if err != nil {
          return err
      }
      return c.client.do(req, nil, http.StatusNoContent)
  }
  \<close>
\<close>

definition Merge_params ::
    "'t golib \<Rightarrow> 64 word \<Rightarrow> 64 word list option \<Rightarrow> 't Contact option \<Rightarrow> go_error + jvalue" where
  "Merge_params L primaryID secondaryIDs attrs =
     (case (case attrs of
              None \<Rightarrow> Inr []
            | Some a \<Rightarrow>
                (case Contact_json L a of Inl e \<Rightarrow> Inl e | Inr j \<Rightarrow> Inr [(''contact'', j)])) of
        Inl e \<Rightarrow> Inl e
      | Inr contact \<Rightarrow>
          Inr (JObject
            ([(''primary_contact_id'', uint64_json primaryID),
              (''secondary_contact_ids'',
                 (case secondaryIDs of None \<Rightarrow> JNull | Some ids \<Rightarrow> JArray (map uint64_json ids)))]
             @ contact)))"

definition Merge_request ::
    "'t golib \<Rightarrow> client \<Rightarrow> 64 word \<Rightarrow> 64 word list option \<Rightarrow> 't Contact option \<Rightarrow> go_error + Request" where
  "Merge_request L c primaryID secondaryIDs attrs =
     (case Merge_params L primaryID secondaryIDs attrs of
        Inl err \<Rightarrow> Inl err
      | Inr j \<Rightarrow> newRequest L c ''POST'' ''contacts/merge'' (Some (Bytes (json_text j))))"

definition Merge ::
    "'t golib \<Rightarrow> client \<Rightarrow> 64 word \<Rightarrow> 64 word list option \<Rightarrow> 't Contact option \<Rightarrow> go_error option" where
  "Merge L c primaryID secondaryIDs attrs =
     send c (Merge_request L c primaryID secondaryIDs attrs) 204"

text \<open>
  \<^verbatim>\<open>
  func (c *contactsClient) Restore(id uint64) error {
      req, err := c.client.newRequest(http.MethodPut, fmt.Sprintf("contacts/%d/restore", id), nil)
      if err != nil {
          return err
      }
      return c.client.do(req, nil, http.StatusOK)
  }
  \<close>
\<close>

definition Restore_request :: "'t golib \<Rightarrow> client \<Rightarrow> 64 word \<Rightarrow> go_error + Request" where
  "Restore_request L c cid =
     newRequest L c ''PUT'' (''contacts/'' @ decimal (unat cid) @ ''/restore'') None"

definition Restore :: "'t golib \<Rightarrow> client \<Rightarrow> 64 word \<Rightarrow> go_error option" where
  "Restore L c cid = send c (Restore_request L c cid) 200"

section \<open>Duplicate detection\<close>

lemma IsDuplicate_range_find:
  "IsDuplicate_range errs =
     (case find is_email_duplicate errs of
        None \<Rightarrow> Inr (False, Exact 0)
      | Some err \<Rightarrow>
          (case map_of (AdditionalInfo err) ''user_id'' of
             None \<Rightarrow> Inr (False, Exact 0)
           | Some DNil \<Rightarrow> Inr (False, Exact 0)
           | Some (DFloat64 f) \<Rightarrow> Inr (True, uint64_of_float64 f)
           | Some _ \<Rightarrow> Inl TypeAssertionPanic))"
  by (induction errs) simp_all

lemma find_skip_prefix:
  "\<forall>x \<in> set pre. \<not> P x \<Longrightarrow> P y \<Longrightarrow> find P (pre @ y # post) = Some y"
  by (induction pre) simp_all

lemma uint64_of_whole_number:
  "0 \<le> n \<Longrightarrow> n < 2 ^ 64 \<Longrightarrow> uint64_of_float64 (of_int n) = Exact (word_of_int n)"
  by (simp add: uint64_of_float64_def trunc_def)

text \<open>
  C3, as stated: \<open>IsDuplicate\<close> returns \<open>(true, id)\<close> iff some field error has field
  "email", code "duplicate_value" and a present, non-null \<open>user_id\<close>. It fails on the
  code: with two such entries of which only the second carries a \<open>user_id\<close>, the
  loop returns \<open>(false, 0)\<close> at the first.
\<close>

theorem IsDuplicate_exists_counterexample:
  "is_email_duplicate
     \<lparr>Field = ''email'', AdditionalInfo = [(''user_id'', DFloat64 42)], Message = [],
      Code = ''duplicate_value''\<rparr> \<and>
   map_of (AdditionalInfo
     \<lparr>Field = ''email'', AdditionalInfo = [(''user_id'', DFloat64 42)], Message = [],
      Code = ''duplicate_value''\<rparr>) ''user_id'' = Some (DFloat64 42) \<and>
   IsDuplicate
     \<lparr>Err = None, ReqBody = [], ResBody = [], Description = [],
      Errors =
        [\<lparr>Field = ''email'', AdditionalInfo = [], Message = [], Code = ''duplicate_value''\<rparr>,
         \<lparr>Field = ''email'', AdditionalInfo = [(''user_id'', DFloat64 42)], Message = [],
          Code = ''duplicate_value''\<rparr>],
      StatusCode = 409\<rparr> = Inr (False, Exact 0)"
  by (simp add: IsDuplicate_def is_email_duplicate_def)

text \<open>
  C3, amended: \<open>IsDuplicate\<close> returns \<open>(true, id)\<close> iff the first field error whose
  field is "email" and whose code is "duplicate_value" holds a \<open>float64\<close> under
  \<open>user_id\<close>, and \<open>id\<close> is \<open>uint64\<close> of that number (the number itself when it is a
  whole number below \<open>2^64\<close>); it returns \<open>(false, id)\<close> iff \<open>id\<close> is 0 and either no
  field error has that field and code or the first that has them lacks \<open>user_id\<close> or
  holds \<open>nil\<close> there.
\<close>

theorem IsDuplicate_first_match:
  "((IsDuplicate e = Inr (True, i)) =
      (\<exists>err f. find is_email_duplicate (Errors e) = Some err \<and>
         map_of (AdditionalInfo err) ''user_id'' = Some (DFloat64 f) \<and>
         i = uint64_of_float64 f)) \<and>
   ((IsDuplicate e = Inr (False, i)) =
      (i = Exact 0 \<and>
       (find is_email_duplicate (Errors e) = None \<or>
        (\<exists>err. find is_email_duplicate (Errors e) = Some err \<and>
           (map_of (AdditionalInfo err) ''user_id'' = None \<or>
            map_of (AdditionalInfo err) ''user_id'' = Some DNil))))) \<and>
   uint64_of_float64 (of_int (uint (w :: 64 word))) = Exact w"
proof (intro conjI)
  show "(IsDuplicate e = Inr (True, i)) =
      (\<exists>err f. find is_email_duplicate (Errors e) = Some err \<and>
         map_of (AdditionalInfo err) ''user_id'' = Some (DFloat64 f) \<and>
         i = uint64_of_float64 f)"
    by (auto simp: IsDuplicate_def IsDuplicate_range_find split: option.splits dyn.splits)
  show "(IsDuplicate e = Inr (False, i)) =
      (i = Exact 0 \<and>
       (find is_email_duplicate (Errors e) = None \<or>
        (\<exists>err. find is_email_duplicate (Errors e) = Some err \<and>
           (map_of (AdditionalInfo err) ''user_id'' = None \<or>
            map_of (AdditionalInfo err) ''user_id'' = Some DNil))))"
    by (auto simp: IsDuplicate_def IsDuplicate_range_find split: option.splits dyn.splits)
  show "uint64_of_float64 (of_int (uint w)) = Exact w"
    using uint64_of_whole_number [of "uint w"] uint_bounded [of w] by simp
qed

theorem IsDuplicate_first_match_witness:
  "IsDuplicate
     \<lparr>Err = None, ReqBody = [], ResBody = [], Description = ''Validation failed'',
      Errors =
        [\<lparr>Field = ''name'', AdditionalInfo = [], Message = [], Code = ''missing_field''\<rparr>,
         \<lparr>Field = ''email'', AdditionalInfo = [(''user_id'', DFloat64 12345)],
          Message = ''already taken'', Code = ''duplicate_value''\<rparr>],
      StatusCode = 409\<rparr> = Inr (True, Exact 12345)"
proof -
  let ?dup = "\<lparr>Field = ''email'', AdditionalInfo = [(''user_id'', DFloat64 12345)],
          Message = ''already taken'', Code = ''duplicate_value''\<rparr>"
  let ?e = "\<lparr>Err = None, ReqBody = [], ResBody = [], Description = ''Validation failed'',
      Errors =
        [\<lparr>Field = ''name'', AdditionalInfo = [], Message = [], Code = ''missing_field''\<rparr>,
         ?dup],
      StatusCode = 409\<rparr>"
  have f: "find is_email_duplicate (Errors ?e) = Some ?dup"
    by (simp add: is_email_duplicate_def)
  have c: "uint64_of_float64 12345 = Exact 12345"
    using IsDuplicate_first_match [of ?e "Exact 0" 12345] by simp
  have "\<exists>err f. find is_email_duplicate (Errors ?e) = Some err \<and>
         map_of (AdditionalInfo err) ''user_id'' = Some (DFloat64 f) \<and>
         Exact 12345 = uint64_of_float64 f"
    using f c by simp
  then show ?thesis
    using IsDuplicate_first_match [of ?e "Exact 12345" 0] by blast
qed

text \<open>
  C9: the loop decides at the first field error whose field is "email" and whose code
  is "duplicate_value". The entries before it, which differ in field or code, are
  skipped; when it has no \<open>user_id\<close>, or \<open>nil\<close> there, the result is \<open>(false, 0)\<close>
  whatever the entries after it hold.
\<close>

theorem IsDuplicate_short_circuit:
  assumes "\<forall>x \<in> set pre. \<not> is_email_duplicate x"
    and "is_email_duplicate err"
    and "map_of (AdditionalInfo err) ''user_id'' = None \<or>
         map_of (AdditionalInfo err) ''user_id'' = Some DNil"
  shows "IsDuplicate (e\<lparr>Errors := pre @ err # post\<rparr>) = Inr (False, Exact 0)"
proof -
  have "find is_email_duplicate (pre @ err # post) = Some err"
    using assms(1,2) by (rule find_skip_prefix)
  with assms(3) show ?thesis
    by (auto simp: IsDuplicate_def IsDuplicate_range_find)
qed

theorem IsDuplicate_short_circuit_witness:
  "IsDuplicate
     \<lparr>Err = None, ReqBody = [], ResBody = [], Description = [],
      Errors =
        [\<lparr>Field = ''email'', AdditionalInfo = [(''user_id'', DFloat64 7)], Message = [],
          Code = ''invalid_format''\<rparr>,
         \<lparr>Field = ''email'', AdditionalInfo = [(''user_id'', DNil)], Message = [],
          Code = ''duplicate_value''\<rparr>,
         \<lparr>Field = ''email'', AdditionalInfo = [(''user_id'', DFloat64 42)], Message = [],
          Code = ''duplicate_value''\<rparr>],
      StatusCode = 409\<rparr> = Inr (False, Exact 0)"
  using IsDuplicate_short_circuit
    [where pre = "[\<lparr>Field = ''email'', AdditionalInfo = [(''user_id'', DFloat64 7)],
          Message = [], Code = ''invalid_format''\<rparr>]"
       and err = "\<lparr>Field = ''email'', AdditionalInfo = [(''user_id'', DNil)], Message = [],
          Code = ''duplicate_value''\<rparr>"
       and e = "\<lparr>Err = None, ReqBody = [], ResBody = [], Description = [], Errors = [],
          StatusCode = 409\<rparr>"
       and post = "[\<lparr>Field = ''email'', AdditionalInfo = [(''user_id'', DFloat64 42)], Message = [],
          Code = ''duplicate_value''\<rparr>]"]
  by (simp add: is_email_duplicate_def)

text \<open>
  C10: \<open>IsDuplicate\<close> panics exactly when the first field error whose field is "email"
  and whose code is "duplicate_value" holds under \<open>user_id\<close> a value that is neither
  \<open>nil\<close> nor a \<open>float64\<close> (a string, say): the type assertion is unchecked, and it is
  safe only when \<open>user_id\<close> was decoded from a JSON number.
\<close>

theorem IsDuplicate_panics:
  "(IsDuplicate e = Inl p) =
     (\<exists>err v. find is_email_duplicate (Errors e) = Some err \<and>
        map_of (AdditionalInfo err) ''user_id'' = Some v \<and>
        v \<noteq> DNil \<and> (\<forall>f. v \<noteq> DFloat64 f))"
  by (cases p)
    (auto simp: IsDuplicate_def IsDuplicate_range_find split: option.splits dyn.splits)

theorem IsDuplicate_panics_witness:
  "IsDuplicate
     \<lparr>Err = None, ReqBody = [], ResBody = [], Description = [],
      Errors =
        [\<lparr>Field = ''email'', AdditionalInfo = [(''user_id'', DString ''42'')], Message = [],
          Code = ''duplicate_value''\<rparr>],
      StatusCode = 409\<rparr> = Inl TypeAssertionPanic"
proof -
  let ?err = "\<lparr>Field = ''email'', AdditionalInfo = [(''user_id'', DString ''42'')],
          Message = [], Code = ''duplicate_value''\<rparr>"
  let ?e = "\<lparr>Err = None, ReqBody = [], ResBody = [], Description = [],
      Errors = [?err], StatusCode = 409\<rparr>"
  have "find is_email_duplicate (Errors ?e) = Some ?err \<and>
        map_of (AdditionalInfo ?err) ''user_id'' = Some (DString ''42'') \<and>
        DString ''42'' \<noteq> DNil \<and> (\<forall>f. DString ''42'' \<noteq> DFloat64 f)"
    by (simp add: is_email_duplicate_def)
  then show ?thesis
    using IsDuplicate_panics [of ?e TypeAssertionPanic] by blast
qed

section \<open>Executing a request\<close>

lemma do_status_mismatch:
  "httpClient c req = (Inr raw, unread) \<Longrightarrow> Response_StatusCode raw \<noteq> expectedStatus \<Longrightarrow>
   do c req out expectedStatus =
     (Some (ApiError (NewApiError (Response_StatusCode raw) expectedStatus
        (Request_Payload (req\<lparr>Body := unread\<rparr>)) (Response_Payload raw))),
      map_option pointee out)"
  by (simp add: do_def)

text \<open>
  C7: when the transport fails, \<open>do\<close> returns the transport's error itself, whatever
  it is, and leaves the target as it was: nothing is wrapped or replaced.
\<close>

theorem do_transport_error:
  "httpClient c req = (Inl err, unread) \<Longrightarrow>
   do c req out expectedStatus = (Some err, map_option pointee out)"
  by (simp add: do_def)

theorem do_transport_error_witness:
  "do \<lparr>apiKey = ''key'', baseURL = ''https://acme.freshdesk.com/api/v2/'',
       httpClient = (\<lambda>r. (Inl (ErrorString ''giving up after 5 attempt(s)''), []))\<rparr>
      \<lparr>Method = ''GET'', URL = ''https://acme.freshdesk.com/api/v2/contacts/7'', Header = [],
       Body = []\<rparr>
      (Some \<lparr>pointee = (zero_Contact :: unit Contact), Decode = (\<lambda>s v. (None, v))\<rparr>) 200 =
   (Some (ErrorString ''giving up after 5 attempt(s)''), Some (zero_Contact :: unit Contact))"
  using do_transport_error
    [where c = "\<lparr>apiKey = ''key'', baseURL = ''https://acme.freshdesk.com/api/v2/'',
       httpClient = (\<lambda>r. (Inl (ErrorString ''giving up after 5 attempt(s)''), []))\<rparr>"
     and err = "ErrorString ''giving up after 5 attempt(s)''" and unread = "[]"
     and req = "\<lparr>Method = ''GET'', URL = ''https://acme.freshdesk.com/api/v2/contacts/7'',
       Header = [], Body = []\<rparr>"
     and out = "Some \<lparr>pointee = (zero_Contact :: unit Contact), Decode = (\<lambda>s v. (None, v))\<rparr>"
     and expectedStatus = 200]
  by simp

text \<open>
  C4: when the status code is the expected one, the error returned is never an
  \<open>*APIError\<close>, whatever the body holds; without a target the result is nil and
  nothing is decoded; with a target, a failure of the decoder is returned as the
  decoder's own error.
\<close>

theorem do_expected_status:
  assumes "httpClient c req = (Inr raw, unread)"
    and "Response_StatusCode raw = expectedStatus"
  shows "(\<forall>e. fst (do c req out expectedStatus) \<noteq> Some (ApiError e)) \<and>
    (out = None \<longrightarrow> do c req out expectedStatus = (None, None)) \<and>
    (\<forall>t msg v. out = Some t \<and> Decode t (Response_Body raw) (pointee t) = (Some msg, v) \<longrightarrow>
       do c req out expectedStatus = (Some (DecodeError msg), Some v))"
  using assms by (auto simp: do_def split: option.splits prod.splits)

theorem do_expected_status_witness:
  "do \<lparr>apiKey = ''key'', baseURL = ''https://acme.freshdesk.com/api/v2/'',
       httpClient = (\<lambda>r. (Inr \<lparr>Response_StatusCode = 200,
          Response_Body = Stream ''<html>'' None\<rparr>, []))\<rparr>
      \<lparr>Method = ''PUT'', URL = ''https://acme.freshdesk.com/api/v2/contacts/7/restore'',
       Header = [], Body = []\<rparr>
      no_target 200 = (None, None)"
  using do_expected_status
    [where c = "\<lparr>apiKey = ''key'', baseURL = ''https://acme.freshdesk.com/api/v2/'',
       httpClient = (\<lambda>r. (Inr \<lparr>Response_StatusCode = 200,
          Response_Body = Stream ''<html>'' None\<rparr>, []))\<rparr>"
     and raw = "\<lparr>Response_StatusCode = 200, Response_Body = Stream ''<html>'' None\<rparr>"
     and unread = "[]" and out = no_target and expectedStatus = 200
     and req = "\<lparr>Method = ''PUT'',
       URL = ''https://acme.freshdesk.com/api/v2/contacts/7/restore'', Header = [], Body = []\<rparr>"]
  by (simp add: no_target_def)

section \<open>Building a request\<close>

text \<open>
  C6: a nil body gives a request whose body has no bytes (so neither \<open>null\<close> nor
  \<open>{}\<close>); when the body cannot be marshalled the error is returned and no request
  is; every request that is built carries \<open>Content-Type: application/json\<close> and the
  Basic credentials of the API key with the password \<open>X\<close>.
\<close>

theorem newRequest_contract:
  "(\<forall>r. newRequest L c method endpoint None = Inr r \<longrightarrow>
      Body r = [] \<and> Body r \<noteq> ''null'' \<and> Body r \<noteq> ''{}'') \<and>
   (\<forall>v err. json_Marshal L v = Inl err \<longrightarrow>
      newRequest L c method endpoint (Some v) = Inl err) \<and>
   (\<forall>r. newRequest L c method endpoint body = Inr r \<longrightarrow>
      map_of (Header r) ''Content-Type'' = Some [''application/json''] \<and>
      map_of (Header r) ''Authorization'' = Some [''Basic '' @ base64 (apiKey c @ '':'' @ ''X'')])"
  by (auto simp: newRequest_def http_NewRequest_def Header_Add_def Header_Set_def
      SetBasicAuth_def Let_def split: option.splits sum.splits if_splits)

theorem newRequest_contract_witness:
  "newRequest
     \<lparr>url_Parse = (\<lambda>u. None), FormatFloat = (\<lambda>f. ''0''),
      Time_MarshalJSON = (\<lambda>t :: unit. Inr ''0001-01-01T00:00:00Z''),
      Time_UnmarshalJSON = (\<lambda>s. Inr ()), Time_zero = ()\<rparr>
     \<lparr>apiKey = ''key'', baseURL = ''https://acme.freshdesk.com/api/v2/'',
      httpClient = (\<lambda>r. (Inl (ErrorString ''no network''), []))\<rparr>
     ''PUT'' ''contacts/7/restore'' None =
   Inr \<lparr>Method = ''PUT'', URL = ''https://acme.freshdesk.com/api/v2/contacts/7/restore'',
        Header = [(''Authorization'', [''Basic a2V5Olg='']),
                  (''Content-Type'', [''application/json''])],
        Body = []\<rparr> \<and>
   newRequest
     \<lparr>url_Parse = (\<lambda>u. None), FormatFloat = (\<lambda>f. ''0''),
      Time_MarshalJSON = (\<lambda>t :: unit. Inr ''0001-01-01T00:00:00Z''),
      Time_UnmarshalJSON = (\<lambda>s. Inr ()), Time_zero = ()\<rparr>
     \<lparr>apiKey = ''key'', baseURL = ''https://acme.freshdesk.com/api/v2/'',
      httpClient = (\<lambda>r. (Inl (ErrorString ''no network''), []))\<rparr>
     ''POST'' ''contacts''
     (Some (ContactPointer
        (Some (zero_Contact\<lparr>CustomFields := Some [(''notify'', DUnsupported ''chan int'')]\<rparr>)))) =
   Inl (UnsupportedTypeError ''chan int'')"
proof -
  let ?L = "\<lparr>url_Parse = (\<lambda>u. None), FormatFloat = (\<lambda>f. ''0''),
      Time_MarshalJSON = (\<lambda>t :: unit. Inr ''0001-01-01T00:00:00Z''),
      Time_UnmarshalJSON = (\<lambda>s. Inr ()), Time_zero = ()\<rparr>"
  let ?c = "\<lparr>apiKey = ''key'', baseURL = ''https://acme.freshdesk.com/api/v2/'',
      httpClient = (\<lambda>r. (Inl (ErrorString ''no network''), []))\<rparr>"
  let ?v = "ContactPointer
        (Some (zero_Contact\<lparr>CustomFields := Some [(''notify'', DUnsupported ''chan int'')]\<rparr>))"
  have built: "newRequest ?L ?c ''PUT'' ''contacts/7/restore'' None =
      Inr \<lparr>Method = ''PUT'', URL = ''https://acme.freshdesk.com/api/v2/contacts/7/restore'',
        Header = [(''Authorization'', [''Basic a2V5Olg='']),
                  (''Content-Type'', [''application/json''])],
        Body = []\<rparr>"
    by (simp add: newRequest_def http_NewRequest_def is_token_char_def Header_Add_def
        Header_Set_def SetBasicAuth_def sextet_def base64_alphabet_def)
  have "json_Marshal ?L ?v = Inl (UnsupportedTypeError ''chan int'')"
    by (simp add: json_Marshal_def Marshal_Contact_def Contact_json_def zero_Contact_def
        time_member_def custom_member_def sorted_entries_def entry_def)
  then have "newRequest ?L ?c ''POST'' ''contacts'' (Some ?v) =
      Inl (UnsupportedTypeError ''chan int'')"
    using newRequest_contract [of ?L ?c "''POST''" "''contacts''" None] by blast
  with built show ?thesis
    by simp
qed

section \<open>The bodies of HardDelete and Merge\<close>

lemma sextet_alphabet: "sextet n \<in> set base64_alphabet"
proof -
  have "n mod 64 < length base64_alphabet"
    by (simp add: base64_alphabet_def)
  then show ?thesis
    unfolding sextet_def by (rule nth_mem)
qed

lemma base64_chars: "set (base64 b) \<subseteq> set (CHR ''='' # base64_alphabet)"
  by (induction b rule: base64.induct) (auto simp: Let_def sextet_alphabet)

lemma escape_byte_alphabet:
  "list_all (\<lambda>c. escape_byte c = [c]) (CHR ''='' # base64_alphabet)"
  by (simp add: base64_alphabet_def escape_byte_def dquote_def backslash_def)

lemma escape_byte_base64:
  "c \<in> set (CHR ''='' # base64_alphabet) \<Longrightarrow> escape_byte c = [c]"
  using escape_byte_alphabet unfolding list_all_iff by blast

lemma concat_map_singleton: "\<forall>c \<in> set s. f c = [c] \<Longrightarrow> concat (map f s) = s"
  by (induction s) simp_all

lemma quote_base64: "quote (base64 b) = dquote # base64 b @ [dquote]"
proof -
  have "\<forall>c \<in> set (base64 b). escape_byte c = [c]"
    using base64_chars [of b] escape_byte_base64 by blast
  then show ?thesis
    by (simp add: quote_def concat_map_singleton)
qed

lemma json_Marshal_Bytes: "json_Marshal L (Bytes b) = Inr (dquote # base64 b @ [dquote])"
  by (simp add: json_Marshal_def quote_base64)

lemma newRequest_Body:
  "newRequest L c meth path (Some v) = Inr r \<Longrightarrow> json_Marshal L v = Inr (Body r)"
  by (auto simp: newRequest_def http_NewRequest_def Header_Add_def Header_Set_def
      SetBasicAuth_def Let_def split: option.splits sum.splits if_splits)

lemma newRequest_Bytes:
  "newRequest L c meth path (Some (Bytes b)) = Inr r \<Longrightarrow>
   Body r = dquote # base64 b @ [dquote]"
  using newRequest_Body [of L c meth path "Bytes b" r] by (simp add: json_Marshal_Bytes)

lemma object_text_differs: "dquote # s \<noteq> json_text (JObject kvs)"
  by (simp add: dquote_def)

text \<open>
  C2 holds of no call: \<open>HardDelete\<close> and \<open>Merge\<close> marshal their parameters to the JSON
  object themselves and hand the bytes to \<open>newRequest\<close>, which marshals its body
  again; a \<open>[]byte\<close> is written as a string in base64. The body on the wire is that
  JSON string, not the object.
\<close>

theorem request_body_is_base64:
  "(\<forall>r. HardDelete_request L c cid force = Inr r \<longrightarrow>
      Body r = dquote # base64 (json_text (HardDelete_params cid force)) @ [dquote] \<and>
      Body r \<noteq> json_text (HardDelete_params cid force)) \<and>
   (\<forall>r j. Merge_params L primaryID secondaryIDs attrs = Inr j \<and>
      Merge_request L c primaryID secondaryIDs attrs = Inr r \<longrightarrow>
      Body r = dquote # base64 (json_text j) @ [dquote] \<and>
      (\<forall>kvs. Body r \<noteq> json_text (JObject kvs)))"
proof (intro conjI allI impI)
  fix r
  assume "HardDelete_request L c cid force = Inr r"
  then have b: "Body r = dquote # base64 (json_text (HardDelete_params cid force)) @ [dquote]"
    unfolding HardDelete_request_def by (rule newRequest_Bytes)
  then show "Body r = dquote # base64 (json_text (HardDelete_params cid force)) @ [dquote]" .
  show "Body r \<noteq> json_text (HardDelete_params cid force)"
    unfolding b HardDelete_params_def by (rule object_text_differs)
next
  fix r j
  assume a: "Merge_params L primaryID secondaryIDs attrs = Inr j \<and>
      Merge_request L c primaryID secondaryIDs attrs = Inr r"
  then have "newRequest L c ''POST'' ''contacts/merge'' (Some (Bytes (json_text j))) = Inr r"
    by (auto simp: Merge_request_def)
  then have b: "Body r = dquote # base64 (json_text j) @ [dquote]"
    by (rule newRequest_Bytes)
  then show "Body r = dquote # base64 (json_text j) @ [dquote]" .
  fix kvs
  show "Body r \<noteq> json_text (JObject kvs)"
    unfolding b by (rule object_text_differs)
qed

theorem request_body_is_base64_witness:
  \<open>HardDelete_request
     \<lparr>url_Parse = (\<lambda>u. None), FormatFloat = (\<lambda>f. ''0''),
      Time_MarshalJSON = (\<lambda>t :: unit. Inr ''0001-01-01T00:00:00Z''),
      Time_UnmarshalJSON = (\<lambda>s. Inr ()), Time_zero = ()\<rparr>
     \<lparr>apiKey = ''key'', baseURL = ''https://acme.freshdesk.com/api/v2/'',
      httpClient = (\<lambda>r. (Inl (ErrorString ''no network''), []))\<rparr>
     1 True =
   Inr \<lparr>Method = ''DELETE'',
        URL = ''https://acme.freshdesk.com/api/v2/contacts/1/hard_delete'',
        Header = [(''Authorization'', [''Basic a2V5Olg='']),
                  (''Content-Type'', [''application/json''])],
        Body = ''"eyJpZCI6MSwiZm9yY2UiOnRydWV9"''\<rparr> \<and>
   ''"eyJpZCI6MSwiZm9yY2UiOnRydWV9"'' \<noteq> json_text (HardDelete_params 1 True)\<close>
proof -
  let ?L = "\<lparr>url_Parse = (\<lambda>u. None), FormatFloat = (\<lambda>f. ''0''),
      Time_MarshalJSON = (\<lambda>t :: unit. Inr ''0001-01-01T00:00:00Z''),
      Time_UnmarshalJSON = (\<lambda>s. Inr ()), Time_zero = ()\<rparr>"
  let ?c = "\<lparr>apiKey = ''key'', baseURL = ''https://acme.freshdesk.com/api/v2/'',
      httpClient = (\<lambda>r. (Inl (ErrorString ''no network''), []))\<rparr>"
  let ?r = "\<lparr>Method = ''DELETE'',
        URL = ''https://acme.freshdesk.com/api/v2/contacts/1/hard_delete'',
        Header = [(''Authorization'', [''Basic a2V5Olg='']),
                  (''Content-Type'', [''application/json''])],
        Body = dquote # ''eyJpZCI6MSwiZm9yY2UiOnRydWV9'' @ [dquote]\<rparr>"
  have built: "HardDelete_request ?L ?c 1 True = Inr ?r"
    by (simp add: HardDelete_request_def newRequest_def json_Marshal_def HardDelete_params_def
        uint64_json_def quote_def escape_byte_def dquote_def backslash_def digit_def
        sextet_def base64_alphabet_def http_NewRequest_def is_token_char_def Header_Add_def
        Header_Set_def SetBasicAuth_def)
  from request_body_is_base64 [of ?L ?c 1 True] built
  have "Body ?r \<noteq> json_text (HardDelete_params 1 True)"
    by blast
  with built show ?thesis
    by (simp add: dquote_def)
qed

section \<open>The error built on a status mismatch\<close>

text \<open>
  C5 at its failing input: a response payload that is JSON and whose \<open>description\<close>
  is not a string. \<open>json.Unmarshal\<close> fails on it and \<open>NewApiError\<close> drops the
  failure, but the key \<open>StatusCode\<close> has been decoded into the field of that name:
  the status code of the error is 200, not the 500 it was built with. In the same
  way \<open>"Err": null\<close> removes the message (\<open>Error\<close> then dereferences nil), and
  \<open>ReqBody\<close> and \<open>ResBody\<close> can be set by the payload.
\<close>

theorem NewApiError_overwrites_base:
  \<open>NewApiError 500 200 [] ''{"StatusCode":200,"description":5}'' =
     \<lparr>Err = Some ''received status code 500 (200 expected)'', ReqBody = [],
      ResBody = ''{"StatusCode":200,"description":5}'', Description = [], Errors = [],
      StatusCode = 200\<rparr> \<and>
   Err (NewApiError 500 200 [] ''{"Err":null}'') = None \<and>
   Error (NewApiError 500 200 [] ''{"Err":null}'') = None \<and>
   ReqBody (NewApiError 500 200 ''{"name":"Ann"}'' ''{"ReqBody":"x","ResBody":"y"}'') = ''x''\<close>
  by code_simp

text \<open>
  C1 at its failing input: a request whose body is JSON, a transport that has read
  the body to its end when it returns (as a transport that sends the request has), and
  a response with status 500 whose body holds the key \<open>StatusCode\<close>. The
  \<open>*APIError\<close> returned has an empty request payload, since \<open>req.Payload()\<close> reads
  what is left of the body after it was sent, and the status code 200, not the 500
  observed.
\<close>

theorem do_mismatch_loses_request_and_status:
  \<open>json_Compact ''{"name": "Ann"}'' = Some ''{"name":"Ann"}'' \<and>
   do \<lparr>apiKey = ''key'', baseURL = ''https://acme.freshdesk.com/api/v2/'',
       httpClient = (\<lambda>r. (Inr \<lparr>Response_StatusCode = 500,
          Response_Body = Stream ''{"StatusCode": 200}'' None\<rparr>, []))\<rparr>
      \<lparr>Method = ''POST'', URL = ''https://acme.freshdesk.com/api/v2/contacts'', Header = [],
       Body = ''{"name": "Ann"}''\<rparr>
      no_target 201 =
   (Some (ApiError
      \<lparr>Err = Some ''received status code 500 (201 expected)'', ReqBody = [],
       ResBody = ''{"StatusCode":200}'', Description = [], Errors = [], StatusCode = 200\<rparr>),
    None)\<close>
  by code_simp

end
